theory Spec2Isabelle
  imports Complex_Main
begin

section \<open>Values and errors\<close>

text \<open>
  The program computes with numpy float64 scalars. A finite value is the real number it
  denotes; the three non-finite results that float64 arithmetic yields instead of
  raising are constructors of their own, because numpy's division by zero returns them
  (with a RuntimeWarning only). In the dynamics function and in the sums of the metrics
  the finite results are taken as the exact reals (rounding, overflow and underflow are
  not represented there). The two products and the quotient of the synergy index are
  rounded to float64 exactly, since whether they underflow or overflow decides the
  value of the metric.
\<close>

datatype np_float = Fin real | PosInf | NegInf | NaN

datatype py_error = ValueError | IndexError

text \<open>
  float64 division \<open>x / y\<close> of finite operands, as the dynamics function uses it: a
  finite quotient is taken as the exact real. A real zero has no sign, so the sign
  bit of a zero divisor is passed separately (\<open>neg_zero\<close>: the divisor is \<open>-0.0\<close>);
  it only matters when \<open>y = 0\<close>. The dividend's sign bit matters only when it is
  nonzero, where it is \<open>x < 0\<close>.
\<close>

definition true_divide :: "real \<Rightarrow> bool \<Rightarrow> real \<Rightarrow> np_float" where
  "true_divide x neg_zero y =
     (if y \<noteq> 0 then Fin (x / y)
      else if x = 0 then NaN
      else if (x < 0) = neg_zero then PosInf
      else NegInf)"

text \<open>float64 addition of a finite left operand and any right operand.\<close>

fun np_add :: "real \<Rightarrow> np_float \<Rightarrow> np_float" where
  "np_add x (Fin y) = Fin (x + y)"
| "np_add x PosInf = PosInf"
| "np_add x NegInf = NegInf"
| "np_add x NaN = NaN"

subsection \<open>Rounding to float64\<close>

text \<open>Rounding to the nearest integer, ties to the even one.\<close>

definition round_half_even :: "real \<Rightarrow> int" where
  "round_half_even x =
     (let f = \<lfloor>x\<rfloor>; r = x - of_int f
      in if r < 1 / 2 then f else if 1 / 2 < r then f + 1 else if even f then f else f + 1)"

text \<open>
  The binary exponent of a magnitude \<open>a\<close>: the least \<open>e\<close> from \<open>-1022\<close> on with
  \<open>a < 2 ^ (e + 1)\<close>, and at most \<open>1023\<close>. Magnitudes below \<open>2 ^ (-1022)\<close> (the
  subnormal range) share the exponent \<open>-1022\<close>.
\<close>

fun float64_exponent_from :: "nat \<Rightarrow> int \<Rightarrow> real \<Rightarrow> int" where
  "float64_exponent_from 0 e a = e"
| "float64_exponent_from (Suc n) e a =
     (if 2 powi (e + 1) \<le> a then float64_exponent_from n (e + 1) a else e)"

definition float64_exponent :: "real \<Rightarrow> int" where
  "float64_exponent a = float64_exponent_from 2045 (- 1022) a"

text \<open>
  IEEE 754 binary64 rounding of a real (round to nearest, ties to even): the float64
  values of exponent \<open>e\<close> are the multiples of \<open>2 ^ (e - 52)\<close>; a magnitude that
  rounds to \<open>2 ^ 1024\<close> or beyond overflows to an infinity, and one that rounds to
  zero underflows. The sign of a zero result is not part of the value.
\<close>

definition round_float64 :: "real \<Rightarrow> np_float" where
  "round_float64 r =
     (let a = \<bar>r\<bar>;
          ulp = 2 powi (float64_exponent a - 52);
          v = of_int (round_half_even (a / ulp)) * ulp
      in if 2 ^ 1024 \<le> v then (if r < 0 then NegInf else PosInf)
         else Fin (if r < 0 then - v else v))"

text \<open>
  float64 multiplication \<open>x * y\<close> of finite operands. The sign bit of the result is
  the exclusive or of the operands' sign bits, also when the result is zero.
\<close>

definition float64_multiply :: "real \<Rightarrow> real \<Rightarrow> np_float" where
  "float64_multiply x y = round_float64 (x * y)"

text \<open>
  float64 division \<open>x / y\<close> with the quotient rounded, as the synergy index needs it;
  \<open>sx\<close> and \<open>sy\<close> are the sign bits of the operands,
  which matter where an operand is zero. Zero by zero and infinity by infinity are NaN;
  a nonzero or infinite dividend by zero is an infinity; a finite dividend by an
  infinity is zero; otherwise the real quotient is rounded.
\<close>

fun float64_divide :: "bool \<Rightarrow> np_float \<Rightarrow> bool \<Rightarrow> np_float \<Rightarrow> np_float" where
  "float64_divide sx (Fin a) sy (Fin b) =
     (if b \<noteq> 0 then round_float64 (a / b)
      else if a = 0 then NaN
      else if sx = sy then PosInf
      else NegInf)"
| "float64_divide sx (Fin a) sy PosInf = Fin 0"
| "float64_divide sx (Fin a) sy NegInf = Fin 0"
| "float64_divide sx (Fin a) sy NaN = NaN"
| "float64_divide sx PosInf sy (Fin b) = (if sy then NegInf else PosInf)"
| "float64_divide sx PosInf sy PosInf = NaN"
| "float64_divide sx PosInf sy NegInf = NaN"
| "float64_divide sx PosInf sy NaN = NaN"
| "float64_divide sx NegInf sy (Fin b) = (if sy then PosInf else NegInf)"
| "float64_divide sx NegInf sy PosInf = NaN"
| "float64_divide sx NegInf sy NegInf = NaN"
| "float64_divide sx NegInf sy NaN = NaN"
| "float64_divide sx NaN sy y = NaN"

text \<open>A float64 value that is finite and not zero.\<close>

fun finite_nonzero :: "np_float \<Rightarrow> bool" where
  "finite_nonzero (Fin q) = (q \<noteq> 0)"
| "finite_nonzero PosInf = False"
| "finite_nonzero NegInf = False"
| "finite_nonzero NaN = False"

section \<open>The model object\<close>

record InternationalCooperationModel =
  tech_transfer_rate :: real
  trade_growth_rate :: real
  collaboration_factor :: real
  resource_constraint :: real

text \<open>\<open>__init__\<close>: the four hard-coded rate constants.\<close>

definition init :: InternationalCooperationModel where
  "init = \<lparr> tech_transfer_rate = 3 / 10,
            trade_growth_rate = 2 / 10,
            collaboration_factor = 4 / 10,
            resource_constraint = 1 / 10 \<rparr>"

section \<open>The dynamics function\<close>

type_synonym state = "real \<times> real"

text \<open>
  \<open>cooperation_dynamics(self, state, t, a, b, c, d)\<close>; \<open>self\<close> is not read and is
  left out. The state is the float64 pair the integrator passes in. In the two sums
  \<open>1 + region\<close> a zero result is \<open>+0.0\<close>, hence \<open>neg_zero = False\<close>.
\<close>

definition cooperation_dynamics ::
  "state \<Rightarrow> real \<Rightarrow> real \<Rightarrow> real \<Rightarrow> real \<Rightarrow> real \<Rightarrow> np_float \<times> np_float" where
  "cooperation_dynamics st t a b c d =
     (case st of (region1, region2) \<Rightarrow>
        let d_region1 = np_add (a * region1 * (1 - region1 / 100))
                               (true_divide (b * region1 * region2) False (1 + region2));
            d_region2 = np_add (c * region2 * (1 - region2 / 100))
                               (true_divide (d * region1 * region2) False (1 + region1))
        in (d_region1, d_region2))"

section \<open>The time grid and the simulation\<close>

text \<open>
  \<open>np.linspace(start, stop, num)\<close> with the default \<open>endpoint=True\<close>: a negative
  \<open>num\<close> raises ValueError; otherwise \<open>num\<close> samples \<open>start + i * step\<close> with
  \<open>step = (stop - start) / (num - 1)\<close>, the last one overwritten by \<open>stop\<close>. With
  \<open>num \<le> 1\<close> there is no step and the samples are \<open>start + i * (stop - start)\<close>.
\<close>

definition linspace :: "real \<Rightarrow> real \<Rightarrow> int \<Rightarrow> py_error + real list" where
  "linspace start stop num =
     (if num < 0 then Inl ValueError
      else
        let n = nat num; delta = stop - start in
        if n > 1 then
          Inr ((map (\<lambda>i. start + real i * (delta / real (n - 1))) [0..<n])[n - 1 := stop])
        else
          Inr (map (\<lambda>i. start + real i * delta) [0..<n]))"

text \<open>The line \<open>t = np.linspace(0, years, years*12)\<close> of \<open>simulate_cooperation\<close>.\<close>

definition time_grid :: "int \<Rightarrow> py_error + real list" where
  "time_grid years = linspace 0 (real_of_int years) (years * 12)"

text \<open>
  The tuple \<open>params\<close> that \<open>simulate_cooperation\<close> builds from the object's fields, in
  the order the source lists them.
\<close>

definition params :: "InternationalCooperationModel \<Rightarrow> real \<times> real \<times> real \<times> real" where
  "params self = (tech_transfer_rate self, trade_growth_rate self,
                  collaboration_factor self, resource_constraint self)"

text \<open>
  scipy's \<open>odeint(func, y0, t, args=params)\<close> evaluates the right-hand side as
  \<open>func(y, t, *args)\<close>: the tuple is unpacked positionally after \<open>y\<close> and \<open>t\<close>.
\<close>

definition call_with_args ::
  "(state \<Rightarrow> real \<Rightarrow> real \<Rightarrow> real \<Rightarrow> real \<Rightarrow> real \<Rightarrow> 'r) \<Rightarrow>
   state \<Rightarrow> real \<Rightarrow> real \<times> real \<times> real \<times> real \<Rightarrow> 'r" where
  "call_with_args func y t args = (case args of (p0, p1, p2, p3) \<Rightarrow> func y t p0 p1 p2 p3)"

text \<open>The right-hand side that a run of \<open>simulate_cooperation\<close> integrates.\<close>

definition simulate_rhs ::
  "InternationalCooperationModel \<Rightarrow> state \<Rightarrow> real \<Rightarrow> np_float \<times> np_float" where
  "simulate_rhs self y t = call_with_args cooperation_dynamics y t (params self)"

text \<open>
  The array of sampled states that the integrator returns; its entries are finite
  float64 values, as the reals they denote.
\<close>

type_synonym trajectory = "state list"

text \<open>
  \<open>simulate_cooperation(self, years)\<close>. The integrator itself (scipy's LSODA wrapper) is
  not part of the repository; it is the parameter \<open>solver\<close>, which receives the
  right-hand side, the initial state \<open>[20, 20]\<close> and the grid.
\<close>

definition simulate_cooperation ::
  "((state \<Rightarrow> real \<Rightarrow> np_float \<times> np_float) \<Rightarrow> state \<Rightarrow> real list \<Rightarrow> trajectory) \<Rightarrow>
   InternationalCooperationModel \<Rightarrow> int \<Rightarrow> py_error + real list \<times> trajectory" where
  "simulate_cooperation solver self years =
     (case time_grid years of
        Inl e \<Rightarrow> Inl e
      | Inr t \<Rightarrow>
          let initial_state = (20, 20);
              solution = solver (simulate_rhs self) initial_state t
          in Inr (t, solution))"

section \<open>Metrics\<close>

text \<open>
  Row access \<open>solution[i]\<close> on the trajectory array: a negative index counts from the
  end, an index out of range raises IndexError.
\<close>

definition row :: "trajectory \<Rightarrow> int \<Rightarrow> py_error + state" where
  "row solution i =
     (let n = int (length solution); j = (if i < 0 then n + i else i)
      in if 0 \<le> j \<and> j < n then Inr (solution ! nat j) else Inl IndexError)"

text \<open>
  \<open>calculate_metrics(self, solution)\<close>; the result is the dict literal, kept as an
  association list in insertion order. \<open>np.sum\<close> of a row is the sum of its two
  components. The dividend and the divisor of \<open>synergy_index\<close> are float64 products;
  the sign bit of each is the exclusive or of its factors' sign bits.
\<close>

type_synonym metrics = "(string \<times> np_float) list"

definition calculate_metrics :: "trajectory \<Rightarrow> py_error + metrics" where
  "calculate_metrics solution =
     (case row solution (- 1) of
        Inl e \<Rightarrow> Inl e
      | Inr (last1, last2) \<Rightarrow>
          (case row solution 0 of
             Inl e \<Rightarrow> Inl e
           | Inr (first1, first2) \<Rightarrow>
               let region1_final = last1;
                   region2_final = last2;
                   total_growth = (last1 + last2) - (first1 + first2);
                   synergy_index =
                     float64_divide
                       ((last1 < 0) \<noteq> (last2 < 0)) (float64_multiply last1 last2)
                       ((first1 < 0) \<noteq> (first2 < 0)) (float64_multiply first1 first2)
               in Inr [(''Region 1 Final Level'', Fin region1_final),
                       (''Region 2 Final Level'', Fin region2_final),
                       (''Total Growth'', Fin total_growth),
                       (''Synergy Index'', synergy_index)]))"

section \<open>The report\<close>

definition digit_char :: "nat \<Rightarrow> char" where
  "digit_char n = ''0123456789'' ! (n mod 10)"

fun decimal :: "nat \<Rightarrow> string" where
  "decimal n = (if n < 10 then [digit_char n] else decimal (n div 10) @ [digit_char n])"

declare decimal.simps [simp del]

text \<open>
  The format specification \<open>.2f\<close>: the sign, the integer digits, a point and two
  fraction digits of the value rounded to hundredths; non-finite values print as words.
\<close>

fun format_2f :: "np_float \<Rightarrow> string" where
  "format_2f (Fin x) =
     (let h = nat (round_half_even (\<bar>x\<bar> * 100))
      in (if x < 0 then ''-'' else []) @ decimal (h div 100) @ ''.'' @
         [digit_char (h div 10), digit_char h])"
| "format_2f PosInf = ''inf''"
| "format_2f NegInf = ''-inf''"
| "format_2f NaN = ''nan''"

definition nl :: string where
  "nl = [CHR 0x0A]"

text \<open>
  \<open>generate_report(self, metrics)\<close>: the fixed heading and parameter lines, then one
  line per item of the dict, in its iteration order.
\<close>

definition generate_report :: "InternationalCooperationModel \<Rightarrow> metrics \<Rightarrow> string" where
  "generate_report self ms =
     (let report = ''International Cooperation Analysis'' @ nl;
          report = report @ ''==============================='' @ nl @ nl;
          report = report @ ''Model Parameters:'' @ nl;
          report = report @ ''Technology Transfer Rate: '' @
                     format_2f (Fin (tech_transfer_rate self)) @ nl;
          report = report @ ''Trade Growth Rate: '' @
                     format_2f (Fin (trade_growth_rate self)) @ nl;
          report = report @ ''Collaboration Factor: '' @
                     format_2f (Fin (collaboration_factor self)) @ nl;
          report = report @ ''Resource Constraint: '' @
                     format_2f (Fin (resource_constraint self)) @ nl @ nl;
          report = report @ ''Results:'' @ nl
      in foldl (\<lambda>report (metric, v). report @ metric @ '': '' @ format_2f v @ nl)
           report ms)"

text \<open>
  A number printed with exactly two decimal places: an optional minus sign, at least
  one digit, a point, two digits.
\<close>

definition is_digit :: "char \<Rightarrow> bool" where
  "is_digit ch = (ch \<in> set ''0123456789'')"

definition two_decimals :: "string \<Rightarrow> bool" where
  "two_decimals s =
     (let body = (case s of [] \<Rightarrow> [] | ch # rest \<Rightarrow> if ch = CHR ''-'' then rest else s);
          ip = takeWhile is_digit body;
          fp = dropWhile is_digit body
      in ip \<noteq> [] \<and>
         (case fp of
            [p, d1, d2] \<Rightarrow> p = CHR ''.'' \<and> is_digit d1 \<and> is_digit d2
          | _ \<Rightarrow> False))"

text \<open>A text given by its lines, each terminated by a newline.\<close>

definition report_lines :: "string list \<Rightarrow> string" where
  "report_lines ls = concat (map (\<lambda>l. l @ nl) ls)"

section \<open>Properties of the dynamics function\<close>


text \<open>
  The right-hand side is symmetric under exchanging the two regions together with the
  parameter pairs \<open>(a, b)\<close> and \<open>(c, d)\<close>.
\<close>

lemma cooperation_dynamics_swap:
  "cooperation_dynamics (y, x) t c d a b = prod.swap (cooperation_dynamics (x, y) t a b c d)"
  by (simp add: cooperation_dynamics_def Let_def mult.assoc mult.left_commute mult.commute)



text \<open>
  Claim C10. The dynamics function does not depend on its time argument: at any two
  times it returns the same derivative pair for the same state and parameters.
\<close>

theorem cooperation_dynamics_autonomous:
  "cooperation_dynamics st t a b c d = cooperation_dynamics st t' a b c d"
  by (simp add: cooperation_dynamics_def)

section \<open>Properties of float64 rounding\<close>

lemma two_powi_less_imp_less:
  assumes "2 powi m \<le> (a::real)" and "a < 2 powi n"
  shows "m < n"
proof (rule ccontr)
  assume "\<not> m < n"
  then have "(2::real) powi n \<le> 2 powi m"
    by (intro power_int_increasing) simp_all
  with assms show False by linarith
qed

lemma float64_exponent_from_eq:
  assumes "e \<le> e'" and "e' \<le> e + int n" and "a < 2 powi (e' + 1)"
    and "e < e' \<Longrightarrow> 2 powi e' \<le> a"
  shows "float64_exponent_from n e a = e'"
  using assms
proof (induction n arbitrary: e)
  case 0
  then show ?case by simp
next
  case (Suc n)
  show ?case
  proof (cases "2 powi (e + 1) \<le> a")
    case True
    from True Suc.prems(3) have "e + 1 < e' + 1"
      by (rule two_powi_less_imp_less)
    then have lt: "e < e'" by simp
    have "float64_exponent_from n (e + 1) a = e'"
      using lt Suc.prems by (intro Suc.IH) simp_all
    with True show ?thesis by simp
  next
    case False
    have "e' = e"
    proof (rule ccontr)
      assume "e' \<noteq> e"
      with Suc.prems(1) have lt: "e < e'" by simp
      then have "2 powi e' \<le> a" by (rule Suc.prems(4))
      moreover have "a < 2 powi (e + 1)" using False by simp
      ultimately have "e' < e + 1" by (rule two_powi_less_imp_less)
      with lt show False by simp
    qed
    with False show ?thesis by simp
  qed
qed

lemma float64_exponent_eq:
  assumes "- 1022 \<le> e" and "e \<le> 1023" and "a < 2 powi (e + 1)"
    and "- 1022 < e \<Longrightarrow> 2 powi e \<le> a"
  shows "float64_exponent a = e"
  unfolding float64_exponent_def
  using assms by (intro float64_exponent_from_eq) simp_all

lemma round_half_even_of_int: "round_half_even (of_int q) = q"
  by (simp add: round_half_even_def)

lemma round_float64_representable:
  assumes "- 1022 \<le> e" and "e \<le> 1023" and "\<bar>r\<bar> < 2 powi (e + 1)"
    and "- 1022 < e \<Longrightarrow> 2 powi e \<le> \<bar>r\<bar>"
    and "\<bar>r\<bar> / 2 powi (e - 52) = of_int q"
  shows "round_float64 r = Fin r"
proof -
  have ex: "float64_exponent \<bar>r\<bar> = e"
    using assms(1-4) by (rule float64_exponent_eq)
  have ulp: "(2::real) powi (e - 52) \<noteq> 0"
    by simp
  have v: "of_int (round_half_even (\<bar>r\<bar> / 2 powi (e - 52))) * 2 powi (e - 52) = \<bar>r\<bar>"
    unfolding assms(5) round_half_even_of_int
    using assms(5) ulp by (simp add: field_simps)
  have "(2::real) powi (e + 1) \<le> 2 powi 1024"
    using assms(2) by (intro power_int_increasing) simp_all
  with assms(3) have "\<not> 2 ^ 1024 \<le> \<bar>r\<bar>"
    by simp
  then show ?thesis
    unfolding round_float64_def Let_def ex v by simp
qed

lemma round_float64_zero: "round_float64 0 = Fin 0"
  by (simp add: round_float64_def round_half_even_def Let_def)

lemma round_float64_one: "round_float64 1 = Fin 1"
  by (rule round_float64_representable [where e = 0 and q = "2 ^ 52"]) simp_all

lemma round_float64_not_NaN: "round_float64 r \<noteq> NaN"
  by (simp add: round_float64_def Let_def)

lemma round_float64_examples:
  "round_float64 400 = Fin 400"
  "round_float64 1500 = Fin 1500"
  "round_float64 (15 / 4) = Fin (15 / 4)"
  "round_float64 12 = Fin 12"
proof -
  show "round_float64 400 = Fin 400"
    by (rule round_float64_representable [where e = 8 and q = "400 * 2 ^ 44"]) simp_all
  show "round_float64 1500 = Fin 1500"
    by (rule round_float64_representable [where e = 10 and q = "1500 * 2 ^ 42"]) simp_all
  show "round_float64 (15 / 4) = Fin (15 / 4)"
    by (rule round_float64_representable [where e = 1 and q = "15 * 2 ^ 49"]) simp_all
  show "round_float64 12 = Fin 12"
    by (rule round_float64_representable [where e = 3 and q = "3 * 2 ^ 51"]) simp_all
qed

lemma round_float64_underflow: "round_float64 (1 / 2 ^ 1200) = Fin 0"
proof -
  have ex: "float64_exponent \<bar>1 / 2 ^ 1200\<bar> = - 1022"
    by (rule float64_exponent_eq) (simp_all add: power_int_minus_divide)
  have "round_half_even (\<bar>1 / 2 ^ 1200\<bar> / 2 powi (- 1022 - 52)) = 0"
    by (simp add: round_half_even_def power_int_minus_divide Let_def)
  then show ?thesis
    unfolding round_float64_def Let_def ex by simp
qed

lemma float64_exponent_from_cap:
  assumes "2 powi (e + int n) \<le> a"
  shows "float64_exponent_from n e a = e + int n"
  using assms
proof (induction n arbitrary: e)
  case 0
  then show ?case by simp
next
  case (Suc n)
  have "(2::real) powi (e + 1) \<le> 2 powi (e + int (Suc n))"
    by (intro power_int_increasing) simp_all
  with Suc.prems have step: "2 powi (e + 1) \<le> a"
    by linarith
  have "float64_exponent_from n (e + 1) a = e + 1 + int n"
    using Suc.prems by (intro Suc.IH) (simp add: add.assoc)
  with step show ?case by simp
qed

lemma round_float64_overflow: "round_float64 (2 ^ 1200) = PosInf"
proof -
  have "float64_exponent_from 2045 (- 1022) \<bar>2 ^ 1200\<bar> = - 1022 + int 2045"
    by (rule float64_exponent_from_cap) simp
  then have ex: "float64_exponent \<bar>2 ^ 1200\<bar> = 1023"
    by (simp add: float64_exponent_def)
  have "\<bar>2 ^ 1200 :: real\<bar> / 2 powi (1023 - 52) = of_int (2 ^ 229)"
    by simp
  then have "round_half_even (\<bar>2 ^ 1200\<bar> / 2 powi (1023 - 52)) = 2 ^ 229"
    by (simp only: round_half_even_of_int)
  then show ?thesis
    unfolding round_float64_def Let_def ex by simp
qed

section \<open>Properties of the metrics\<close>

lemma row_last: "sol \<noteq> [] \<Longrightarrow> row sol (- 1) = Inr (last sol)"
  by (cases sol rule: rev_cases) (simp_all add: row_def Let_def nat_diff_distrib' flip: of_nat_Suc)

lemma row_first: "sol \<noteq> [] \<Longrightarrow> row sol 0 = Inr (hd sol)"
  by (cases sol) (simp_all add: row_def Let_def)

lemma calculate_metrics_nonempty:
  assumes "sol \<noteq> []"
  shows "calculate_metrics sol =
    Inr [(''Region 1 Final Level'', Fin (fst (last sol))),
         (''Region 2 Final Level'', Fin (snd (last sol))),
         (''Total Growth'',
            Fin ((fst (last sol) + snd (last sol)) - (fst (hd sol) + snd (hd sol)))),
         (''Synergy Index'',
            float64_divide
              ((fst (last sol) < 0) \<noteq> (snd (last sol) < 0))
              (float64_multiply (fst (last sol)) (snd (last sol)))
              ((fst (hd sol) < 0) \<noteq> (snd (hd sol) < 0))
              (float64_multiply (fst (hd sol)) (snd (hd sol))))]"
  using assms
  by (simp add: calculate_metrics_def row_last row_first Let_def split: prod.splits)

lemma float64_divide_by_zero:
  "float64_divide sx x sy (Fin 0) = NaN \<longleftrightarrow> x = Fin 0 \<or> x = NaN"
  "float64_divide sx x sy (Fin 0) = NaN \<or> float64_divide sx x sy (Fin 0) = PosInf \<or>
   float64_divide sx x sy (Fin 0) = NegInf"
  by (cases x; simp)+

lemma float64_divide_self:
  "float64_divide s x s x = (if finite_nonzero x then Fin 1 else NaN)"
  by (cases x) (simp_all add: round_float64_one)

text \<open>
  Claim C3, as the code has it. A first trajectory entry with a zero component does not
  make the metrics calculator raise: the division is a float64 division, which returns
  a non-finite value. For the all-zero trajectory the Synergy Index is NaN.
\<close>

theorem zero_initial_state_counterexample:
  "calculate_metrics [(0, 0)] =
     Inr [(''Region 1 Final Level'', Fin 0), (''Region 2 Final Level'', Fin 0),
          (''Total Growth'', Fin 0), (''Synergy Index'', NaN)]"
  by (simp add: calculate_metrics_nonempty float64_multiply_def round_float64_zero)

text \<open>
  Claim C3, amended. If either component of the first trajectory entry is exactly zero,
  computing the metrics returns normally, and the Synergy Index is a non-finite value:
  NaN when the float64 product of the final components is zero as well, an infinity
  otherwise.
\<close>

theorem zero_initial_component_not_raised:
  assumes "sol \<noteq> []" and "fst (hd sol) = 0 \<or> snd (hd sol) = 0"
  shows "\<exists>m s. calculate_metrics sol = Inr m \<and> map_of m ''Synergy Index'' = Some s \<and>
           (s = NaN \<or> s = PosInf \<or> s = NegInf) \<and>
           (s = NaN \<longleftrightarrow> float64_multiply (fst (last sol)) (snd (last sol)) = Fin 0)"
proof -
  define sn where "sn = ((fst (last sol) < 0) \<noteq> (snd (last sol) < 0))"
  define sd where "sd = ((fst (hd sol) < 0) \<noteq> (snd (hd sol) < 0))"
  define n where "n = float64_multiply (fst (last sol)) (snd (last sol))"
  define s where "s = float64_divide sn n sd (Fin 0)"
  have z: "float64_multiply (fst (hd sol)) (snd (hd sol)) = Fin 0"
    using assms(2) by (auto simp: float64_multiply_def round_float64_zero)
  have m: "calculate_metrics sol =
      Inr [(''Region 1 Final Level'', Fin (fst (last sol))),
           (''Region 2 Final Level'', Fin (snd (last sol))),
           (''Total Growth'',
              Fin ((fst (last sol) + snd (last sol)) - (fst (hd sol) + snd (hd sol)))),
           (''Synergy Index'', s)]"
    unfolding calculate_metrics_nonempty [OF assms(1)] z s_def n_def sn_def sd_def ..
  have "n \<noteq> NaN"
    by (simp add: n_def float64_multiply_def round_float64_not_NaN)
  then have nan: "s = NaN \<longleftrightarrow> n = Fin 0"
    by (simp add: s_def float64_divide_by_zero(1))
  have "s = NaN \<or> s = PosInf \<or> s = NegInf"
    unfolding s_def by (rule float64_divide_by_zero(2))
  with m nan show ?thesis
    unfolding n_def by simp
qed

theorem zero_initial_component_not_raised_witness:
  "[(0, 5), (3, 4)] \<noteq> ([] :: trajectory) \<and>
   (fst (hd [(0::real, 5::real), (3, 4)]) = 0 \<or> snd (hd [(0::real, 5::real), (3, 4)]) = 0) \<and>
   calculate_metrics [(0, 5), (3, 4)] =
     Inr [(''Region 1 Final Level'', Fin 3), (''Region 2 Final Level'', Fin 4),
          (''Total Growth'', Fin 2), (''Synergy Index'', PosInf)]"
  using zero_initial_component_not_raised [of "[(0, 5), (3, 4)]"]
  by (simp add: calculate_metrics_nonempty float64_multiply_def round_float64_zero
        round_float64_examples)



text \<open>
  Claim C5, as the code has it. The trajectory with the single entry
  \<open>(2 ^ (-600), 2 ^ (-600))\<close> has both initial components nonzero and its last entry
  equal to its first, but the float64 product of the components underflows to zero, so
  the Synergy Index is \<open>0.0 / 0.0\<close>, which is NaN and not 1.
\<close>

theorem synergy_index_underflow_counterexample:
  "fst (hd [(1 / 2 ^ 600 :: real, 1 / 2 ^ 600 :: real)]) \<noteq> 0 \<and>
   snd (hd [(1 / 2 ^ 600 :: real, 1 / 2 ^ 600 :: real)]) \<noteq> 0 \<and>
   calculate_metrics [(1 / 2 ^ 600, 1 / 2 ^ 600)] =
     Inr [(''Region 1 Final Level'', Fin (1 / 2 ^ 600)),
          (''Region 2 Final Level'', Fin (1 / 2 ^ 600)),
          (''Total Growth'', Fin 0), (''Synergy Index'', NaN)]"
proof -
  have "(1 / 2 ^ 600) * (1 / 2 ^ 600) = (1 / 2 ^ 1200 :: real)"
    by simp
  then have "float64_multiply (1 / 2 ^ 600) (1 / 2 ^ 600) = Fin 0"
    unfolding float64_multiply_def by (simp only: round_float64_underflow)
  then show ?thesis
    by (simp add: calculate_metrics_nonempty)
qed

text \<open>
  Claim C5, amended. For every trajectory whose first entry has both components nonzero,
  the Synergy Index metric is the float64 quotient of the float64 product of the last
  entry's components by the float64 product of the first entry's components: when both
  products are finite and the second is not zero, it is the real quotient of the two
  products rounded to float64. When the last entry equals the first, it is 1 if that
  product is a finite nonzero float64, and NaN if the product underflows to zero or
  overflows.
\<close>

theorem synergy_index_float64:
  assumes "sol \<noteq> []" and "fst (hd sol) \<noteq> 0" and "snd (hd sol) \<noteq> 0"
  shows "\<exists>m s. calculate_metrics sol = Inr m \<and> map_of m ''Synergy Index'' = Some s \<and>
           s = float64_divide
                 ((fst (last sol) < 0) \<noteq> (snd (last sol) < 0))
                 (float64_multiply (fst (last sol)) (snd (last sol)))
                 ((fst (hd sol) < 0) \<noteq> (snd (hd sol) < 0))
                 (float64_multiply (fst (hd sol)) (snd (hd sol))) \<and>
           (\<forall>p q. float64_multiply (fst (last sol)) (snd (last sol)) = Fin p \<longrightarrow>
                  float64_multiply (fst (hd sol)) (snd (hd sol)) = Fin q \<longrightarrow> q \<noteq> 0 \<longrightarrow>
                  s = round_float64 (p / q)) \<and>
           (last sol = hd sol \<longrightarrow>
              s = (if finite_nonzero (float64_multiply (fst (hd sol)) (snd (hd sol)))
                   then Fin 1 else NaN))"
  unfolding calculate_metrics_nonempty [OF assms(1)]
  by (auto simp: float64_divide_self)

theorem synergy_index_float64_witness:
  "[(20, 20), (30, 50)] \<noteq> ([] :: trajectory) \<and>
   fst (hd [(20::real, 20::real), (30, 50)]) \<noteq> 0 \<and>
   snd (hd [(20::real, 20::real), (30, 50)]) \<noteq> 0 \<and>
   (\<exists>m. calculate_metrics [(20, 20), (30, 50)] = Inr m \<and>
        map_of m ''Synergy Index'' = Some (Fin (15 / 4))) \<and>
   (\<exists>m. calculate_metrics [(20, 20), (7, 9), (20, 20)] = Inr m \<and>
        map_of m ''Synergy Index'' = Some (Fin 1)) \<and>
   (\<exists>m. calculate_metrics [(2 ^ 600, 2 ^ 600)] = Inr m \<and>
        map_of m ''Synergy Index'' = Some NaN)"
proof -
  define x :: real where "x = 2 ^ 600"
  have "x * x = 2 ^ 1200"
    by (simp add: x_def flip: power_add)
  then have big: "float64_multiply x x = PosInf"
    unfolding float64_multiply_def by (simp only: round_float64_overflow)
  have xnz: "x \<noteq> 0"
    by (simp add: x_def)
  have ev: "float64_multiply 30 50 = Fin 1500" "float64_multiply 20 20 = Fin 400"
    by (simp_all add: float64_multiply_def round_float64_examples)
  have w1: "\<exists>m. calculate_metrics [(20, 20), (30, 50)] = Inr m \<and>
        map_of m ''Synergy Index'' = Some (Fin (15 / 4))"
    using synergy_index_float64 [of "[(20, 20), (30, 50)]"]
    by (simp add: ev round_float64_examples)
  have w2: "\<exists>m. calculate_metrics [(20, 20), (7, 9), (20, 20)] = Inr m \<and>
        map_of m ''Synergy Index'' = Some (Fin 1)"
    using synergy_index_float64 [of "[(20, 20), (7, 9), (20, 20)]"]
    by (simp add: ev round_float64_one)
  have "\<exists>m. calculate_metrics [(x, x)] = Inr m \<and> map_of m ''Synergy Index'' = Some NaN"
    using synergy_index_float64 [of "[(x, x)]"] xnz
    by (simp add: big)
  then have w3: "\<exists>m. calculate_metrics [(2 ^ 600, 2 ^ 600)] = Inr m \<and>
        map_of m ''Synergy Index'' = Some NaN"
    unfolding x_def .
  from w1 w2 w3 show ?thesis
    by simp
qed

section \<open>Properties of the simulation set-up\<close>

text \<open>
  Claim C2, as the code has it. The right-hand side integrated by the default run
  differs from the dynamics function with \<open>a = 0.3, b = 0.4, c = 0.2, d = 0.1\<close>,
  already at the initial state.
\<close>

theorem default_run_arguments_counterexample:
  "simulate_rhs init (20, 20) 0 \<noteq>
     cooperation_dynamics (20, 20) 0 (3 / 10) (4 / 10) (2 / 10) (1 / 10)"
  by (simp add: simulate_rhs_def call_with_args_def params_def init_def
        cooperation_dynamics_def Let_def true_divide_def)

text \<open>
  Claim C2, amended. In the default run the positional arguments of the dynamics
  function are \<open>a = 0.3\<close> (technology transfer rate), \<open>b = 0.2\<close> (trade growth
  rate), \<open>c = 0.4\<close> (collaboration factor) and \<open>d = 0.1\<close> (resource constraint):
  the tuple is built in the order of the fields and unpacked in that order. The
  integrator is called with this right-hand side, the initial state \<open>[20, 20]\<close> and
  the time grid of the 50-year horizon.
\<close>

theorem default_run_arguments:
  "simulate_rhs init = (\<lambda>y t. cooperation_dynamics y t (3 / 10) (2 / 10) (4 / 10) (1 / 10)) \<and>
   (\<exists>grid. time_grid 50 = Inr grid \<and>
      simulate_cooperation solver init 50 =
        Inr (grid, solver (\<lambda>y t. cooperation_dynamics y t (3 / 10) (2 / 10) (4 / 10) (1 / 10))
                     (20, 20) grid))"
proof -
  have rhs: "simulate_rhs init =
      (\<lambda>y t. cooperation_dynamics y t (3 / 10) (2 / 10) (4 / 10) (1 / 10))"
    by (rule ext, rule ext)
       (simp add: simulate_rhs_def call_with_args_def params_def init_def)
  obtain grid where g: "time_grid 50 = Inr grid"
    by (auto simp: time_grid_def linspace_def Let_def)
  have "simulate_cooperation solver init 50 =
      Inr (grid, solver (simulate_rhs init) (20, 20) grid)"
    by (simp add: simulate_cooperation_def g Let_def)
  with rhs g show ?thesis by simp
qed

lemma linspace_length:
  "0 \<le> num \<Longrightarrow> linspace start stop num = Inr ts \<Longrightarrow> length ts = nat num"
  by (auto simp: linspace_def Let_def split: if_splits)

lemma linspace_nth:
  assumes "1 < num" and "linspace start stop num = Inr ts" and "i < nat num"
  shows "ts ! i = start + real i * ((stop - start) / real (nat num - 1))"
proof -
  define n where "n = nat num"
  define step where "step = (stop - start) / real (n - 1)"
  have n: "1 < n" using assms(1) by (simp add: n_def)
  have ts: "ts = (map (\<lambda>i. start + real i * step) [0..<n])[n - 1 := stop]"
    using assms(1,2) n by (simp add: linspace_def Let_def n_def step_def)
  have i: "i < n" using assms(3) by (simp add: n_def)
  show ?thesis
  proof (cases "i = n - 1")
    case True
    have "real (n - 1) * step = stop - start"
      using n by (simp add: step_def)
    then have "start + real i * step = stop"
      using True by simp
    moreover have "ts ! i = stop"
      using True n by (simp add: ts)
    ultimately show ?thesis
      by (simp add: step_def n_def)
  next
    case False
    then have "ts ! i = start + real i * step"
      using i by (simp add: ts)
    then show ?thesis
      by (simp add: step_def n_def)
  qed
qed

lemma time_grid_defined:
  "0 \<le> years \<Longrightarrow> \<exists>ts. time_grid years = Inr ts \<and> length ts = nat (years * 12)"
  by (simp add: time_grid_def linspace_def Let_def)

lemma time_grid_nth:
  assumes "1 \<le> years" and "time_grid years = Inr ts" and "i < length ts"
  shows "ts ! i = real i * (real_of_int years / real_of_int (years * 12 - 1))"
proof -
  have num: "1 < years * 12" using assms(1) by simp
  have len: "length ts = nat (years * 12)"
    using assms(2) num by (auto simp: time_grid_def intro: linspace_length)
  have "real (nat (years * 12) - 1) = real_of_int (years * 12 - 1)"
    using num by (simp add: nat_diff_distrib')
  moreover have "ts ! i = 0 + real i * ((real_of_int years - 0) / real (nat (years * 12) - 1))"
    using assms(2,3) len by (intro linspace_nth [OF num]) (simp_all add: time_grid_def)
  ultimately show ?thesis by simp
qed

text \<open>
  Claim C7, as the code has it. The default grid has 600 points, and its first two
  points are not \<open>1/12\<close> apart.
\<close>

theorem time_grid_spacing_counterexample:
  "\<exists>ts. time_grid 50 = Inr ts \<and> length ts = 600 \<and> ts ! 1 - ts ! 0 \<noteq> 1 / 12"
proof -
  obtain ts where ts: "time_grid 50 = Inr ts" and len: "length ts = nat (50 * 12)"
    using time_grid_defined [of 50] by auto
  have "ts ! 1 = real 1 * (real_of_int 50 / real_of_int (50 * 12 - 1))"
    using len by (intro time_grid_nth [OF _ ts]) simp_all
  moreover have "ts ! 0 = real 0 * (real_of_int 50 / real_of_int (50 * 12 - 1))"
    using len by (intro time_grid_nth [OF _ ts]) simp_all
  ultimately have "ts ! 1 - ts ! 0 = 50 / 599" by simp
  then have "ts ! 1 - ts ! 0 \<noteq> 1 / 12" by simp
  moreover have "length ts = 600" using len by simp
  ultimately show ?thesis using ts by blast
qed

text \<open>
  Claim C7, amended. For every horizon of at least one year, the time grid is a
  strictly increasing, evenly spaced sequence of \<open>12 * years\<close> points that starts at 0
  and ends at the horizon; consecutive points are \<open>years / (12 * years - 1)\<close> apart.
  The default 50-year horizon yields exactly 600 points, \<open>50/599\<close> apart.
\<close>

theorem time_grid_spacing:
  assumes "1 \<le> years"
  shows "\<exists>ts. time_grid years = Inr ts \<and>
           length ts = nat (years * 12) \<and>
           ts ! 0 = 0 \<and>
           last ts = real_of_int years \<and>
           (\<forall>i. Suc i < length ts \<longrightarrow>
              ts ! Suc i - ts ! i = real_of_int years / real_of_int (years * 12 - 1)) \<and>
           sorted_wrt (<) ts"
proof -
  define step where "step = real_of_int years / real_of_int (years * 12 - 1)"
  obtain ts where ts: "time_grid years = Inr ts" and len: "length ts = nat (years * 12)"
    using time_grid_defined [of years] assms by auto
  have nth: "ts ! i = real i * step" if "i < length ts" for i
    using time_grid_nth [OF assms ts that] by (simp add: step_def)
  have pos: "0 < step"
    using assms by (simp add: step_def)
  have ne: "ts \<noteq> []" and l1: "0 < length ts"
    using len assms by auto
  have first: "ts ! 0 = 0"
    using nth [OF l1] by simp
  have "real (length ts - 1) = real_of_int (years * 12 - 1)"
    using len assms by (simp add: nat_diff_distrib')
  then have "real (length ts - 1) * step = real_of_int years"
    using assms by (simp add: step_def)
  moreover have "last ts = real (length ts - 1) * step"
    using ne l1 by (simp add: last_conv_nth nth)
  ultimately have final: "last ts = real_of_int years"
    by simp
  have gap: "ts ! Suc i - ts ! i = step" if "Suc i < length ts" for i
  proof -
    have "ts ! Suc i = real (Suc i) * step" and "ts ! i = real i * step"
      using that by (simp_all add: nth)
    then show ?thesis by (simp add: algebra_simps)
  qed
  have "ts ! i < ts ! j" if "i < j" and "j < length ts" for i j
  proof -
    have "ts ! i = real i * step" and "ts ! j = real j * step"
      using that by (simp_all add: nth)
    with pos that(1) show ?thesis by simp
  qed
  then have "sorted_wrt (<) ts"
    by (simp add: sorted_wrt_iff_nth_less)
  with ts len first final gap show ?thesis
    unfolding step_def by blast
qed

theorem time_grid_spacing_witness:
  "(1::int) \<le> 50 \<and>
   (\<exists>ts. time_grid 50 = Inr ts \<and> length ts = 600 \<and> ts ! 0 = 0 \<and> last ts = 50 \<and>
      ts ! 1 - ts ! 0 = 50 / 599 \<and> sorted_wrt (<) ts)"
proof -
  obtain ts where ts: "time_grid 50 = Inr ts" "length ts = nat (50 * 12)" "ts ! 0 = 0"
      "last ts = real_of_int 50"
      "\<forall>i. Suc i < length ts \<longrightarrow>
         ts ! Suc i - ts ! i = real_of_int 50 / real_of_int (50 * 12 - 1)"
      "sorted_wrt (<) ts"
    using time_grid_spacing [of 50] by auto
  from ts(2) have len: "length ts = 600" by simp
  have "Suc 0 < length ts" using len by simp
  with ts(5) have "ts ! Suc 0 - ts ! 0 = real_of_int 50 / real_of_int (50 * 12 - 1)"
    by blast
  then have gap: "ts ! 1 - ts ! 0 = 50 / 599" by simp
  from ts(1,3,4,6) len gap show ?thesis by simp
qed

section \<open>Properties of the report\<close>

lemma is_digit_digit_char: "is_digit (digit_char n)"
  unfolding is_digit_def digit_char_def by (rule nth_mem) simp

lemma decimal_digits: "list_all is_digit (decimal n) \<and> decimal n \<noteq> []"
proof (induction n rule: decimal.induct)
  case (1 n)
  show ?case
  proof (cases "n < 10")
    case True
    then have "decimal n = [digit_char n]"
      by (subst decimal.simps) simp
    then show ?thesis
      by (simp add: is_digit_digit_char)
  next
    case False
    then have "decimal n = decimal (n div 10) @ [digit_char n]"
      by (subst decimal.simps) simp
    with 1 [OF False] show ?thesis
      by (simp add: is_digit_digit_char)
  qed
qed

lemma not_digit_point: "\<not> is_digit CHR ''.''"
  by (simp add: is_digit_def)

lemma not_digit_minus: "\<not> is_digit CHR ''-''"
  by (simp add: is_digit_def)

lemma two_decimals_shape:
  assumes "list_all is_digit ds" and "ds \<noteq> []" and "is_digit d1" and "is_digit d2"
  shows "two_decimals (ds @ CHR ''.'' # [d1, d2])"
    and "two_decimals (CHR ''-'' # ds @ CHR ''.'' # [d1, d2])"
proof -
  have all: "\<And>x. x \<in> set ds \<Longrightarrow> is_digit x"
    using assms(1) by (simp add: list_all_iff)
  have tw: "takeWhile is_digit (ds @ CHR ''.'' # [d1, d2]) = ds"
    using all not_digit_point by (simp add: takeWhile_tail)
  have dw: "dropWhile is_digit (ds @ CHR ''.'' # [d1, d2]) = [CHR ''.'', d1, d2]"
    using all not_digit_point by simp
  obtain ch rest where ds: "ds = ch # rest"
    using assms(2) by (cases ds) auto
  have "is_digit ch" using all ds by simp
  then have ch: "ch \<noteq> CHR ''-''"
    using not_digit_minus by auto
  have body1: "(case ds @ CHR ''.'' # [d1, d2] of [] \<Rightarrow> []
                | c # r \<Rightarrow> if c = CHR ''-'' then r else ds @ CHR ''.'' # [d1, d2])
               = ds @ CHR ''.'' # [d1, d2]"
    using ch by (simp add: ds)
  show "two_decimals (ds @ CHR ''.'' # [d1, d2])"
    unfolding two_decimals_def body1 Let_def tw dw
    using assms(2,3,4) by simp
  have body2: "(case CHR ''-'' # ds @ CHR ''.'' # [d1, d2] of [] \<Rightarrow> []
                | c # r \<Rightarrow> if c = CHR ''-'' then r else CHR ''-'' # ds @ CHR ''.'' # [d1, d2])
               = ds @ CHR ''.'' # [d1, d2]"
    by simp
  show "two_decimals (CHR ''-'' # ds @ CHR ''.'' # [d1, d2])"
    unfolding two_decimals_def body2 Let_def tw dw
    using assms(2,3,4) by simp
qed

lemma two_decimals_format_2f: "two_decimals (format_2f (Fin x))"
proof -
  define h where "h = nat (round_half_even (\<bar>x\<bar> * 100))"
  note sh = two_decimals_shape [OF conjunct1 [OF decimal_digits] conjunct2 [OF decimal_digits]
      is_digit_digit_char is_digit_digit_char, of "h div 100" "h div 10" h]
  show ?thesis
  proof (cases "x < 0")
    case True
    then have "format_2f (Fin x) =
        CHR ''-'' # decimal (h div 100) @ CHR ''.'' # [digit_char (h div 10), digit_char h]"
      by (simp add: Let_def h_def)
    then show ?thesis using sh(2) by simp
  next
    case False
    then have "format_2f (Fin x) =
        decimal (h div 100) @ CHR ''.'' # [digit_char (h div 10), digit_char h]"
      by (simp add: Let_def h_def)
    then show ?thesis using sh(1) by simp
  qed
qed

text \<open>The report for a dict of four items, line by line.\<close>

lemma generate_report_lines:
  "generate_report self [(n1, x1), (n2, x2), (n3, x3), (n4, x4)] =
   report_lines
     [''International Cooperation Analysis'',
      ''==============================='',
      [],
      ''Model Parameters:'',
      ''Technology Transfer Rate: '' @ format_2f (Fin (tech_transfer_rate self)),
      ''Trade Growth Rate: '' @ format_2f (Fin (trade_growth_rate self)),
      ''Collaboration Factor: '' @ format_2f (Fin (collaboration_factor self)),
      ''Resource Constraint: '' @ format_2f (Fin (resource_constraint self)),
      [],
      ''Results:'',
      n1 @ '': '' @ format_2f x1,
      n2 @ '': '' @ format_2f x2,
      n3 @ '': '' @ format_2f x3,
      n4 @ '': '' @ format_2f x4]"
  by (simp add: generate_report_def report_lines_def Let_def del: format_2f.simps)

lemma format_2f_examples:
  "format_2f (Fin (3 / 10)) = ''0.30''"
  "format_2f (Fin (1 / 5)) = ''0.20''"
  "format_2f (Fin (2 / 5)) = ''0.40''"
  "format_2f (Fin (1 / 10)) = ''0.10''"
  "format_2f (Fin 0) = ''0.00''"
  "format_2f (Fin (1234567 / 10000)) = ''123.46''"
  "format_2f (Fin (2171 / 20)) = ''108.55''"
  "format_2f (Fin (- (1 / 8))) = ''-0.12''"
  "format_2f (Fin (3349 / 100)) = ''33.49''"
  by (simp_all add: round_half_even_def digit_char_def decimal.simps Let_def)

text \<open>
  Claim C9, as the code has it. The metrics of the all-zero trajectory hold the four
  entries in the fixed order, and their report ends with the line \<open>Synergy Index: nan\<close>,
  which is not a number with two decimal places.
\<close>

theorem report_structure_counterexample:
  "calculate_metrics [(0, 0)] =
     Inr [(''Region 1 Final Level'', Fin 0), (''Region 2 Final Level'', Fin 0),
          (''Total Growth'', Fin 0), (''Synergy Index'', NaN)] \<and>
   generate_report init
     [(''Region 1 Final Level'', Fin 0), (''Region 2 Final Level'', Fin 0),
      (''Total Growth'', Fin 0), (''Synergy Index'', NaN)] =
   report_lines
     [''International Cooperation Analysis'',
      ''==============================='',
      [],
      ''Model Parameters:'',
      ''Technology Transfer Rate: 0.30'',
      ''Trade Growth Rate: 0.20'',
      ''Collaboration Factor: 0.40'',
      ''Resource Constraint: 0.10'',
      [],
      ''Results:'',
      ''Region 1 Final Level: 0.00'',
      ''Region 2 Final Level: 0.00'',
      ''Total Growth: 0.00'',
      ''Synergy Index: nan''] \<and>
   \<not> two_decimals ''nan''"
proof -
  have f: "tech_transfer_rate init = 3 / 10" "trade_growth_rate init = 2 / 10"
    "collaboration_factor init = 4 / 10" "resource_constraint init = 1 / 10"
    by (simp_all add: init_def)
  have m: "calculate_metrics [(0, 0)] =
     Inr [(''Region 1 Final Level'', Fin 0), (''Region 2 Final Level'', Fin 0),
          (''Total Growth'', Fin 0), (''Synergy Index'', NaN)]"
    by (simp add: calculate_metrics_nonempty float64_multiply_def round_float64_zero)
  have n: "\<not> two_decimals ''nan''"
    by (simp add: two_decimals_def is_digit_def)
  show ?thesis
    unfolding generate_report_lines
    using m n by (simp del: format_2f.simps add: f format_2f_examples format_2f.simps(4))
qed

text \<open>
  Claim C9, amended. For every metrics mapping that holds the four metric entries in
  the insertion order of the metrics calculator with finite values, the report is the
  title with its underline and a blank line, the heading \<open>Model Parameters:\<close>,
  exactly four parameter lines, a blank line, the heading \<open>Results:\<close> and exactly four
  metric lines in the order Region 1 Final Level, Region 2 Final Level, Total Growth,
  Synergy Index; each of the eight numbers is printed with exactly two decimal places.
\<close>

theorem report_structure:
  "generate_report self
     [(''Region 1 Final Level'', Fin v1), (''Region 2 Final Level'', Fin v2),
      (''Total Growth'', Fin v3), (''Synergy Index'', Fin v4)] =
   report_lines
     [''International Cooperation Analysis'',
      ''==============================='',
      [],
      ''Model Parameters:'',
      ''Technology Transfer Rate: '' @ format_2f (Fin (tech_transfer_rate self)),
      ''Trade Growth Rate: '' @ format_2f (Fin (trade_growth_rate self)),
      ''Collaboration Factor: '' @ format_2f (Fin (collaboration_factor self)),
      ''Resource Constraint: '' @ format_2f (Fin (resource_constraint self)),
      [],
      ''Results:'',
      ''Region 1 Final Level: '' @ format_2f (Fin v1),
      ''Region 2 Final Level: '' @ format_2f (Fin v2),
      ''Total Growth: '' @ format_2f (Fin v3),
      ''Synergy Index: '' @ format_2f (Fin v4)] \<and>
   list_all two_decimals
     (map format_2f
        [Fin (tech_transfer_rate self), Fin (trade_growth_rate self),
         Fin (collaboration_factor self), Fin (resource_constraint self),
         Fin v1, Fin v2, Fin v3, Fin v4])"
  unfolding generate_report_lines
  by (simp add: two_decimals_format_2f del: format_2f.simps)

theorem report_structure_witness:
  "generate_report init
     [(''Region 1 Final Level'', Fin (1234567 / 10000)),
      (''Region 2 Final Level'', Fin (2171 / 20)),
      (''Total Growth'', Fin (- (1 / 8))), (''Synergy Index'', Fin (3349 / 100))] =
   report_lines
     [''International Cooperation Analysis'',
      ''==============================='',
      [],
      ''Model Parameters:'',
      ''Technology Transfer Rate: 0.30'',
      ''Trade Growth Rate: 0.20'',
      ''Collaboration Factor: 0.40'',
      ''Resource Constraint: 0.10'',
      [],
      ''Results:'',
      ''Region 1 Final Level: 123.46'',
      ''Region 2 Final Level: 108.55'',
      ''Total Growth: -0.12'',
      ''Synergy Index: 33.49''] \<and>
   two_decimals ''123.46'' \<and> two_decimals ''-0.12''"
proof -
  have f: "tech_transfer_rate init = 3 / 10" "trade_growth_rate init = 2 / 10"
    "collaboration_factor init = 4 / 10" "resource_constraint init = 1 / 10"
    by (simp_all add: init_def)
  have d: "two_decimals ''123.46''" "two_decimals ''-0.12''"
    by (simp_all add: two_decimals_def is_digit_def)
  show ?thesis
    using report_structure [of init "1234567 / 10000" "2171 / 20" "- (1 / 8)" "3349 / 100"] d
    by (simp del: format_2f.simps add: f format_2f_examples)
qed

end
